theory Spec2Isabelle
  imports Complex_Main "HOL-Library.Log_Nat"
begin

section \<open>Theme constants\<close>

text \<open>
  The module-level constants of \<^verbatim>\<open>scripts/generate_launch_infographics.py\<close>.
  A colour is the string handed to the drawing library.
\<close>

type_synonym color = string

definition W :: int where "W = 1536"
definition H :: int where "H = 1024"

definition BG :: color where "BG = ''#0B1220''"
definition SURFACE :: color where "SURFACE = ''#111B30''"
definition SURFACE_ALT :: color where "SURFACE_ALT = ''#0F172A''"
definition BORDER :: color where "BORDER = ''#1F2A44''"
definition TEXT :: color where "TEXT = ''#E5E7EB''"
definition MUTED :: color where "MUTED = ''#94A3B8''"
definition GREEN :: color where "GREEN = ''#16A34A''"
definition RED :: color where "RED = ''#EF4444''"
definition BLUE :: color where "BLUE = ''#38BDF8''"
definition AMBER :: color where "AMBER = ''#F59E0B''"

section \<open>Errors\<close>

text \<open>
  The exceptions that can pass through the script. \<open>ValueError\<close> and \<open>OverflowError\<close>
  are raised by \<^verbatim>\<open>int()\<close> on a float and by the conversion of an integer to a float.
  \<open>FontError\<close> stands for any exception of class \<^verbatim>\<open>Exception\<close> raised by
  \<^verbatim>\<open>ImageFont.truetype\<close> (\<^verbatim>\<open>OSError\<close> for a file that is unreadable or not a font).
  \<open>PermissionError\<close> is what \<^verbatim>\<open>Path.exists()\<close> lets through when the file status
  cannot be read. \<open>DrawError\<close> stands for the exception of a drawing call that the library
  rejects (\<^verbatim>\<open>ValueError\<close> for a colour it does not know or a box whose corners are out of
  order; \<^verbatim>\<open>OverflowError\<close>, \<^verbatim>\<open>SystemError\<close> or \<^verbatim>\<open>ValueError\<close> for a coordinate beyond the
  range of a C long), and for the one of an image it cannot create. \<open>OSError\<close> is the
  exception of \<^verbatim>\<open>img.save\<close> when the file cannot be written.
\<close>

datatype error = ValueError | OverflowError | FontError | PermissionError | DrawError | OSError

section \<open>Fonts, drawing calls and the host\<close>

text \<open>
  A font handle is either a scalable font loaded from a path at a size, or the built-in
  font of \<^verbatim>\<open>ImageFont.load_default()\<close>.
\<close>

datatype font_handle = FreeTypeFont string int | DefaultFont

text \<open>
  An image is created with a mode, a size and a background colour; every call on its
  \<^verbatim>\<open>ImageDraw\<close> handle mutates it. The model keeps the image as its creation
  parameters and the sequence of drawing calls carried out on it, in order, each with the
  arguments it was given.
\<close>

type_synonym point = "int \<times> int"
type_synonym box = "int \<times> int \<times> int \<times> int"

datatype draw_op =
    Rounded_rectangle box int "color option" "color option" int
  | Text point string color font_handle
  | Line "point list" color int
  | Polygon "point list" color
  | Ellipse box color

record image =
  mode :: string
  dims :: "int \<times> int"
  background :: color
  ops :: "draw_op list"

text \<open>
  The script runs on a host: a file system and the Pillow library. Neither is part of the
  repository, so the host is a parameter of every function that touches it.
  \<^item> \<open>path_exists\<close> answers \<^verbatim>\<open>Path(path).exists()\<close>, which returns a truth value or
    raises (up to CPython 3.11 it re-raises every \<^verbatim>\<open>OSError\<close> other than the four it reads
    as ``absent'', a permission error among them);
  \<^item> \<open>truetype\<close> answers \<^verbatim>\<open>ImageFont.truetype(path, size=size)\<close>, which returns a handle
    or raises;
  \<^item> \<open>accepts\<close> tells whether the library carries out a drawing call with these
    arguments or raises instead;
  \<^item> \<open>creates\<close> tells whether \<^verbatim>\<open>Image.new(mode, size, color)\<close> returns an image;
  \<^item> \<open>writes\<close> tells whether \<^verbatim>\<open>img.save\<close> can write the named file into the output
    directory.
\<close>

record host =
  path_exists :: "string \<Rightarrow> error + bool"
  truetype :: "string \<Rightarrow> int \<Rightarrow> error + font_handle"
  accepts :: "draw_op \<Rightarrow> bool"
  creates :: "string \<Rightarrow> int \<times> int \<Rightarrow> color \<Rightarrow> bool"
  writes :: "string \<Rightarrow> bool"

section \<open>Font resolution\<close>

definition load_default :: font_handle where
  "load_default = DefaultFont"

definition candidates :: "string list" where
  "candidates =
     [''/System/Library/Fonts/Supplemental/SF Pro Text.ttf'',
      ''/System/Library/Fonts/Supplemental/Arial Unicode.ttf'',
      ''/Library/Fonts/Arial.ttf'']"

text \<open>
  The \<^verbatim>\<open>for path in candidates\<close> loop. The existence test stands outside the
  \<^verbatim>\<open>try\<close>: when it raises, the exception leaves \<^verbatim>\<open>font\<close>. A path that does not exist
  is skipped, a path whose load raises is skipped by \<^verbatim>\<open>except Exception: pass\<close>, the
  first successful load is returned; after the loop the default font is returned.
\<close>

fun font_loop :: "host \<Rightarrow> string list \<Rightarrow> int \<Rightarrow> error + font_handle" where
  "font_loop env [] sz = Inr load_default"
| "font_loop env (path # rest) sz =
     (case path_exists env path of
        Inl e \<Rightarrow> Inl e
      | Inr found \<Rightarrow>
          if found
          then (case truetype env path sz of
                  Inr f \<Rightarrow> Inr f
                | Inl _ \<Rightarrow> font_loop env rest sz)
          else font_loop env rest sz)"

definition font :: "host \<Rightarrow> int \<Rightarrow> bool \<Rightarrow> error + font_handle" where
  "font env sz bold = font_loop env candidates sz"

text \<open>
  \<open>and_then\<close> continues with the value of a step that returned and passes on the
  exception of a step that raised.
\<close>

definition and_then :: "error + 'a \<Rightarrow> ('a \<Rightarrow> error + 'b) \<Rightarrow> error + 'b" where
  "and_then r f = (case r of Inl e \<Rightarrow> Inl e | Inr v \<Rightarrow> f v)"

text \<open>
  The five fonts are resolved once, in this order, when the module is loaded; an exception
  there ends the import. Every drawing function reads them as globals.
\<close>

record fonts =
  F_TITLE :: font_handle
  F_H2 :: font_handle
  F_H3 :: font_handle
  F_BODY :: font_handle
  F_CAP :: font_handle

definition load_fonts :: "host \<Rightarrow> error + fonts" where
  "load_fonts env =
     and_then (font env 58 True) (\<lambda>title.
     and_then (font env 36 True) (\<lambda>h2.
     and_then (font env 28 True) (\<lambda>h3.
     and_then (font env 24 False) (\<lambda>body.
     and_then (font env 20 False) (\<lambda>cap.
       Inr \<lparr>F_TITLE = title, F_H2 = h2, F_H3 = h3, F_BODY = body, F_CAP = cap\<rparr>)))))"

section \<open>Canvas and drawing primitives\<close>

definition Image_new :: "host \<Rightarrow> string \<Rightarrow> int \<times> int \<Rightarrow> color \<Rightarrow> error + image" where
  "Image_new env m sz c =
     (if creates env m sz c then Inr \<lparr>mode = m, dims = sz, background = c, ops = []\<rparr>
      else Inl DrawError)"

definition emit :: "image \<Rightarrow> draw_op \<Rightarrow> image" where
  "emit draw op = draw\<lparr>ops := ops draw @ [op]\<rparr>"

text \<open>
  The primitives are methods of Pillow's \<^verbatim>\<open>ImageDraw\<close>. Each one either carries out the
  call, which the model records, or raises and leaves the canvas as it was; which of the
  two is the host's answer.
\<close>

text \<open>
  Pillow's \<^verbatim>\<open>rounded_rectangle\<close> raises \<^verbatim>\<open>ValueError\<close> (``x1 must be greater than or
  equal to x0'', ``y1 must be greater than or equal to y0'') for a box \<open>(x0, y0, x1, y1)\<close>
  with \<open>x1 < x0\<close> or \<open>y1 < y0\<close>. \<open>checks_box_order\<close> says that the host's library
  does.
\<close>

definition box_ok :: "box \<Rightarrow> bool" where
  "box_ok b = (case b of (x0, y0, x1, y1) \<Rightarrow> x0 \<le> x1 \<and> y0 \<le> y1)"

definition checks_box_order :: "host \<Rightarrow> bool" where
  "checks_box_order env =
     (\<forall>b radius fill outline width.
        \<not> box_ok b \<longrightarrow> \<not> accepts env (Rounded_rectangle b radius fill outline width))"

definition perform :: "host \<Rightarrow> image \<Rightarrow> draw_op \<Rightarrow> error + image" where
  "perform env draw op = (if accepts env op then Inr (emit draw op) else Inl DrawError)"

definition rounded_rectangle ::
  "host \<Rightarrow> image \<Rightarrow> box \<Rightarrow> int \<Rightarrow> color option \<Rightarrow> color option \<Rightarrow> int \<Rightarrow> error + image" where
  "rounded_rectangle env draw xy radius fill outline width =
     perform env draw (Rounded_rectangle xy radius fill outline width)"

definition ellipse :: "host \<Rightarrow> image \<Rightarrow> box \<Rightarrow> color \<Rightarrow> error + image" where
  "ellipse env draw xy fill = perform env draw (Ellipse xy fill)"

definition text_at ::
  "host \<Rightarrow> image \<Rightarrow> point \<Rightarrow> string \<Rightarrow> color \<Rightarrow> font_handle \<Rightarrow> error + image" where
  "text_at env draw xy s fill f = perform env draw (Text xy s fill f)"

definition line :: "host \<Rightarrow> image \<Rightarrow> point list \<Rightarrow> color \<Rightarrow> int \<Rightarrow> error + image" where
  "line env draw xy fill width = perform env draw (Line xy fill width)"

definition polygon :: "host \<Rightarrow> image \<Rightarrow> point list \<Rightarrow> color \<Rightarrow> error + image" where
  "polygon env draw xy fill = perform env draw (Polygon xy fill)"

text \<open>
  A block of statements runs them in order on the canvas; the first one that raises ends
  the block with its exception.
\<close>

fun block :: "(image \<Rightarrow> error + image) list \<Rightarrow> image \<Rightarrow> error + image" where
  "block [] draw = Inr draw"
| "block (stmt # rest) draw =
     (case stmt draw of Inl e \<Rightarrow> Inl e | Inr draw' \<Rightarrow> block rest draw')"

section \<open>Composite shapes\<close>

text \<open>
  \<^verbatim>\<open>if title:\<close> is Python truthiness: the branch is taken for a title that is neither
  \<^verbatim>\<open>None\<close> nor the empty string.
\<close>

definition truthy :: "string option \<Rightarrow> bool" where
  "truthy title = (case title of None \<Rightarrow> False | Some s \<Rightarrow> s \<noteq> [])"

definition panel ::
  "host \<Rightarrow> fonts \<Rightarrow> image \<Rightarrow> int \<Rightarrow> int \<Rightarrow> int \<Rightarrow> int \<Rightarrow> string option \<Rightarrow> error + image" where
  "panel env g draw x y w h title =
     (case rounded_rectangle env draw (x, y, x + w, y + h) 20 (Some SURFACE) (Some BORDER) 2 of
        Inl e \<Rightarrow> Inl e
      | Inr draw' \<Rightarrow>
          if truthy title then text_at env draw' (x + 20, y + 14) (the title) TEXT (F_H3 g)
          else Inr draw')"

text \<open>
  An optional keyword argument with a default is an \<open>option\<close>: \<open>None\<close> is the call
  that leaves the argument out, and the parameter then takes its default.
\<close>

definition arg_or :: "'a option \<Rightarrow> 'a \<Rightarrow> 'a" where
  "arg_or given dflt = (case given of None \<Rightarrow> dflt | Some v \<Rightarrow> v)"

definition bullet ::
  "host \<Rightarrow> fonts \<Rightarrow> image \<Rightarrow> int \<Rightarrow> int \<Rightarrow> string \<Rightarrow> color option \<Rightarrow> error + image" where
  "bullet env g draw x y s color =
     (let c = arg_or color GREEN in
      case ellipse env draw (x, y + 8, x + 10, y + 18) c of
        Inl e \<Rightarrow> Inl e
      | Inr draw' \<Rightarrow> text_at env draw' (x + 18, y) s TEXT (F_BODY g))"

definition arrow ::
  "host \<Rightarrow> image \<Rightarrow> int \<Rightarrow> int \<Rightarrow> int \<Rightarrow> int \<Rightarrow> color option \<Rightarrow> error + image" where
  "arrow env draw x1 y1 x2 y2 color =
     (let c = arg_or color BLUE in
      case line env draw [(x1, y1), (x2, y2)] c 4 of
        Inl e \<Rightarrow> Inl e
      | Inr draw' \<Rightarrow>
          let tip = (if x2 \<ge> x1
                     then [(x2, y2), (x2 - 14, y2 - 8), (x2 - 14, y2 + 8)]
                     else [(x2, y2), (x2 + 14, y2 - 8), (x2 + 14, y2 + 8)])
          in polygon env draw' tip c)"

section \<open>Python floats\<close>

text \<open>
  The chart multiplies float literals by integer sizes and truncates the product with
  \<^verbatim>\<open>int()\<close>. A Python float is an IEEE 754 binary64 value: it is modelled by the real
  number it denotes, or an infinity, or NaN (the two zeros are one value: \<^verbatim>\<open>int()\<close> and
  the comparisons do not tell them apart). Every operation computes the exact real result
  and rounds it to the nearest binary64 value, ties to the even significand.
\<close>

datatype pyfloat = Finite real | PosInf | NegInf | NaN

definition round_half_even :: "real \<Rightarrow> int" where
  "round_half_even q =
     (let f = \<lfloor>q\<rfloor>; r = q - of_int f
      in if r < 1 / 2 then f else if 1 / 2 < r then f + 1 else if even f then f else f + 1)"

text \<open>\<open>floor_log2 q\<close> is \<open>\<lfloor>log\<^sub>2 q\<rfloor>\<close> for \<open>q > 0\<close>, computed on integers.\<close>

definition floor_log2 :: "real \<Rightarrow> int" where
  "floor_log2 q = (if 1 \<le> q then bitlen \<lfloor>q\<rfloor> - 1 else - bitlen (\<lceil>1 / q\<rceil> - 1))"

text \<open>
  A binary64 value has a 53-bit significand and a unit in the last place of at least
  \<open>2\<^sup>-\<^sup>1\<^sup>0\<^sup>7\<^sup>4\<close> (the subnormal range). \<open>round_binary64\<close> rounds with an unbounded
  exponent; \<open>to_binary64\<close> then maps a result of magnitude \<open>2\<^sup>1\<^sup>0\<^sup>2\<^sup>4\<close> or more to an
  infinity.
\<close>

definition ulp_exponent :: "real \<Rightarrow> int" where
  "ulp_exponent q = max (floor_log2 \<bar>q\<bar> - 52) (- 1074)"

definition round_binary64 :: "real \<Rightarrow> real" where
  "round_binary64 q =
     (if q = 0 then 0
      else let e = ulp_exponent q
           in of_int (round_half_even (q / 2 powi e)) * 2 powi e)"

definition to_binary64 :: "real \<Rightarrow> pyfloat" where
  "to_binary64 q =
     (let r = round_binary64 q
      in if 2 ^ 1024 \<le> r then PosInf else if r \<le> - (2 ^ 1024) then NegInf else Finite r)"

text \<open>A decimal literal of the source denotes the binary64 value nearest to it.\<close>

definition float_lit :: "real \<Rightarrow> pyfloat" where
  "float_lit q = to_binary64 q"

text \<open>
  \<^verbatim>\<open>float * int\<close> first converts the integer: the conversion rounds an integer that is
  not a binary64 value and raises \<^verbatim>\<open>OverflowError\<close> for one beyond the finite range.
\<close>

definition float_of_int :: "int \<Rightarrow> error + pyfloat" where
  "float_of_int n =
     (case to_binary64 (of_int n) of
        Finite r \<Rightarrow> Inr (Finite r)
      | _ \<Rightarrow> Inl OverflowError)"

fun float_mul :: "pyfloat \<Rightarrow> pyfloat \<Rightarrow> pyfloat" where
  "float_mul (Finite a) (Finite b) = to_binary64 (a * b)"
| "float_mul NaN _ = NaN"
| "float_mul _ NaN = NaN"
| "float_mul (Finite a) PosInf = (if a = 0 then NaN else if 0 < a then PosInf else NegInf)"
| "float_mul (Finite a) NegInf = (if a = 0 then NaN else if 0 < a then NegInf else PosInf)"
| "float_mul PosInf (Finite b) = (if b = 0 then NaN else if 0 < b then PosInf else NegInf)"
| "float_mul NegInf (Finite b) = (if b = 0 then NaN else if 0 < b then NegInf else PosInf)"
| "float_mul PosInf PosInf = PosInf"
| "float_mul PosInf NegInf = NegInf"
| "float_mul NegInf PosInf = NegInf"
| "float_mul NegInf NegInf = PosInf"

text \<open>
  \<^verbatim>\<open>int(f)\<close> truncates towards zero; it raises \<^verbatim>\<open>OverflowError\<close> on an infinity and
  \<^verbatim>\<open>ValueError\<close> on NaN.
\<close>

fun py_int :: "pyfloat \<Rightarrow> error + int" where
  "py_int (Finite r) = Inr (if 0 \<le> r then \<lfloor>r\<rfloor> else \<lceil>r\<rceil>)"
| "py_int PosInf = Inl OverflowError"
| "py_int NegInf = Inl OverflowError"
| "py_int NaN = Inl ValueError"

text \<open>The comparison \<^verbatim>\<open>a <= b\<close> of two floats.\<close>

fun float_le :: "pyfloat \<Rightarrow> pyfloat \<Rightarrow> bool" where
  "float_le NaN _ = False"
| "float_le _ NaN = False"
| "float_le NegInf _ = True"
| "float_le _ PosInf = True"
| "float_le (Finite a) (Finite b) = (a \<le> b)"
| "float_le PosInf _ = False"
| "float_le _ NegInf = False"

text \<open>The expression \<^verbatim>\<open>int(p * n)\<close> for a float \<open>p\<close> and an integer \<open>n\<close>.\<close>

definition int_of_product :: "pyfloat \<Rightarrow> int \<Rightarrow> error + int" where
  "int_of_product p n =
     (case float_of_int n of
        Inl e \<Rightarrow> Inl e
      | Inr f \<Rightarrow> py_int (float_mul p f))"

section \<open>The chart mapping\<close>

text \<open>
  \<^verbatim>\<open>to_xy\<close> is a closure of \<^verbatim>\<open>render_leak_detection\<close> over the chart bounds
  \<open>chart_x\<close>, \<open>chart_y\<close>, \<open>chart_w\<close>, \<open>chart_h\<close>; here they are its first four
  parameters. The points are mapped in order; an exception at one point ends the loop.
\<close>

fun to_xy :: "int \<Rightarrow> int \<Rightarrow> int \<Rightarrow> int \<Rightarrow> (pyfloat \<times> pyfloat) list \<Rightarrow> error + point list" where
  "to_xy chart_x chart_y chart_w chart_h [] = Inr []"
| "to_xy chart_x chart_y chart_w chart_h ((px, py) # points) =
     (case int_of_product px chart_w of
        Inl e \<Rightarrow> Inl e
      | Inr ix \<Rightarrow>
          (case int_of_product py chart_h of
             Inl e \<Rightarrow> Inl e
           | Inr iy \<Rightarrow>
               (case to_xy chart_x chart_y chart_w chart_h points of
                  Inl e \<Rightarrow> Inl e
                | Inr out \<Rightarrow> Inr ((chart_x + ix, chart_y + iy) # out))))"

definition points_local :: "(pyfloat \<times> pyfloat) list" where
  "points_local =
     [(float_lit 0.05, float_lit 0.78), (float_lit 0.20, float_lit 0.70),
      (float_lit 0.35, float_lit 0.58), (float_lit 0.50, float_lit 0.54),
      (float_lit 0.65, float_lit 0.48), (float_lit 0.80, float_lit 0.44),
      (float_lit 0.93, float_lit 0.40)]"

definition points_remote :: "(pyfloat \<times> pyfloat) list" where
  "points_remote =
     [(float_lit 0.05, float_lit 0.78), (float_lit 0.20, float_lit 0.70),
      (float_lit 0.35, float_lit 0.58), (float_lit 0.50, float_lit 0.51),
      (float_lit 0.65, float_lit 0.40), (float_lit 0.80, float_lit 0.30),
      (float_lit 0.93, float_lit 0.18)]"

section \<open>The four diagrams\<close>

text \<open>
  \<^verbatim>\<open>img.save\<close> writes the image under the output directory, which only \<^verbatim>\<open>main\<close>
  creates; it raises when the file cannot be written. The model returns the file name
  with the image written.
\<close>

definition save :: "host \<Rightarrow> image \<Rightarrow> string \<Rightarrow> error + string \<times> image" where
  "save env img name = (if writes env name then Inr (name, img) else Inl OSError)"

definition render_architecture :: "host \<Rightarrow> fonts \<Rightarrow> error + string \<times> image" where
  "render_architecture env g =
     and_then
       (and_then (Image_new env ''RGB'' (W, H) BG) (block
         [\<lambda>d. text_at env d (56, 40) ''Tokfence Architecture'' TEXT (F_TITLE g),
          \<lambda>d. text_at env d (56, 112) ''Agents-first desktop + UDS/TCP dual transport + ImmuneFence'' MUTED (F_CAP g),
          \<lambda>d. panel env g d 56 180 280 260 (Some ''Clients''),
          \<lambda>d. bullet env g d 82 242 ''OpenClaw'' None,
          \<lambda>d. bullet env g d 82 286 ''CLI'' None,
          \<lambda>d. bullet env g d 82 330 ''Desktop App'' None,
          \<lambda>d. panel env g d 390 180 280 260 (Some ''Transport''),
          \<lambda>d. bullet env g d 416 242 ''UDS: ~/.tokfence/tokfence.sock'' (Some BLUE),
          \<lambda>d. bullet env g d 416 286 ''TCP: 127.0.0.1:9471'' (Some BLUE),
          \<lambda>d. bullet env g d 416 330 ''Socket perms: 0660'' (Some BLUE),
          \<lambda>d. panel env g d 724 180 360 260 (Some ''Tokfence Core''),
          \<lambda>d. bullet env g d 750 242 ''Proxy routing + header sanitization'' None,
          \<lambda>d. bullet env g d 750 286 ''Budget + rate limits + kill switch'' None,
          \<lambda>d. bullet env g d 750 330 ''Live logs + stats + watch'' None,
          \<lambda>d. panel env g d 1138 180 340 260 (Some ''Providers''),
          \<lambda>d. bullet env g d 1164 242 ''Anthropic / OpenAI / Groq'' None,
          \<lambda>d. bullet env g d 1164 286 ''Mistral / Google / OpenRouter'' None,
          \<lambda>d. bullet env g d 1164 330 ''Custom upstreams'' None,
          \<lambda>d. arrow env d 336 310 390 310 None,
          \<lambda>d. arrow env d 670 310 724 310 None,
          \<lambda>d. arrow env d 1084 310 1138 310 None,
          \<lambda>d. panel env g d 56 500 700 440 (Some ''Security Layer (ImmuneFence)''),
          \<lambda>d. bullet env g d 84 562 ''Capability token validation (Ed25519)'' None,
          \<lambda>d. bullet env g d 84 606 ''Risk ladder: GREEN -> YELLOW -> ORANGE -> RED'' (Some AMBER),
          \<lambda>d. bullet env g d 84 650 ''Sensor scans: secret refs, endpoint abuse'' None,
          \<lambda>d. bullet env g d 84 694 ''Canary leak tripwire -> RED escalation'' (Some RED),
          \<lambda>d. bullet env g d 84 738 ''Scope restrictions per risk state'' None,
          \<lambda>d. panel env g d 800 500 678 440 (Some ''Data Plane Guarantees''),
          \<lambda>d. bullet env g d 828 562 ''Keys stay in vault (Keychain/Argon2 file)'' None,
          \<lambda>d. bullet env g d 828 606 ''Agent receives dummy apiKey only'' None,
          \<lambda>d. bullet env g d 828 650 ''Upstream auth injected at request time'' None,
          \<lambda>d. bullet env g d 828 694 ''No secret bodies in normal request logs'' None,
          \<lambda>d. bullet env g d 828 738 ''Desktop snapshots: local-only, 0600'' None]))
       (\<lambda>img. save env img ''infographic_architecture.png'')"

text \<open>
  The \<^verbatim>\<open>for name, color in segments\<close> loop of \<^verbatim>\<open>render_security_model\<close>; \<open>sx\<close>
  advances by \<open>sw + 50\<close> after each segment.
\<close>

definition segments :: "(string \<times> color) list" where
  "segments = [(''GREEN'', GREEN), (''YELLOW'', AMBER), (''ORANGE'', ''#FB923C''), (''RED'', RED)]"

fun segments_loop ::
  "host \<Rightarrow> fonts \<Rightarrow> int \<Rightarrow> int \<Rightarrow> int \<Rightarrow> int \<Rightarrow> int \<Rightarrow> (string \<times> color) list \<Rightarrow> image \<Rightarrow> error + image" where
  "segments_loop env g risk_x risk_w sx sy sw [] d = Inr d"
| "segments_loop env g risk_x risk_w sx sy sw ((name, color) # rest) d =
     and_then
       (block
         [\<lambda>d. rounded_rectangle env d (sx, sy, sx + sw, sy + 76) 12 (Some color) None 1,
          \<lambda>d. text_at env d (sx + 46, sy + 24) name ''#0B1220'' (F_H3 g),
          \<lambda>d. if sx + sw + 42 < risk_x + risk_w
               then arrow env d (sx + sw + 8) (sy + 38) (sx + sw + 34) (sy + 38) (Some BLUE)
               else Inr d]
         d)
       (segments_loop env g risk_x risk_w (sx + (sw + 50)) sy sw rest)"

definition render_security_model :: "host \<Rightarrow> fonts \<Rightarrow> error + string \<times> image" where
  "render_security_model env g =
     (let risk_x = 620; risk_y = 590; risk_w = 780; risk_h = 290;
          sx = risk_x + 28; sy = risk_y + 86; sw = 170
      in and_then
       (and_then (Image_new env ''RGB'' (W, H) BG) (block
         [\<lambda>d. text_at env d (56, 40) ''Tokfence Security Model'' TEXT (F_TITLE g),
          \<lambda>d. text_at env d (56, 112) ''Practical trust boundaries and layered controls'' MUTED (F_CAP g),
          \<lambda>d. panel env g d 56 180 460 760 (Some ''Threats''),
          \<lambda>d. bullet env g d 84 250 ''Prompt injection attempts to exfiltrate keys'' (Some RED),
          \<lambda>d. bullet env g d 84 300 ''Compromised local process calls proxy'' (Some RED),
          \<lambda>d. bullet env g d 84 350 ''Runaway token spend or abuse'' (Some RED),
          \<lambda>d. bullet env g d 84 400 ''Dangerous endpoint/method misuse'' (Some RED),
          \<lambda>d. bullet env g d 84 450 ''Leaked token appears in outputs'' (Some RED),
          \<lambda>d. text_at env d (84, 530) ''Boundary note:'' TEXT (F_H3 g),
          \<lambda>d. text_at env d (84, 574) ''localhost is not a full isolation boundary.'' MUTED (F_BODY g),
          \<lambda>d. text_at env d (84, 612) ''UDS + capabilities reduce attack surface'' MUTED (F_BODY g),
          \<lambda>d. text_at env d (84, 650) ''but do not replace host compromise defenses.'' MUTED (F_BODY g),
          \<lambda>d. panel env g d 556 180 924 760 (Some ''Controls''),
          \<lambda>d. bullet env g d 584 250 ''Vault-backed key injection (no plaintext key in agent)'' None,
          \<lambda>d. bullet env g d 584 300 ''Dual listener: UDS preferred, TCP for Docker flows'' (Some BLUE),
          \<lambda>d. bullet env g d 584 350 ''Capability gating before upstream/tool actions'' None,
          \<lambda>d. bullet env g d 584 400 ''Risk-state policy enforcement (scope + TTL)'' None,
          \<lambda>d. bullet env g d 584 450 ''Budget/rate-limit/kill switch containment'' None,
          \<lambda>d. bullet env g d 584 500 ''Canary leak detection with incident logging'' (Some AMBER),
          \<lambda>d. rounded_rectangle env d (risk_x, risk_y, risk_x + risk_w, risk_y + risk_h) 16
                 (Some SURFACE_ALT) (Some BORDER) 2,
          \<lambda>d. text_at env d (risk_x + 24, risk_y + 16) ''Risk Escalation'' TEXT (F_H3 g),
          segments_loop env g risk_x risk_w sx sy sw segments,
          \<lambda>d. text_at env d (risk_x + 24, risk_y + 196)
                 ''No auto-downgrade in-session. New session/reset required.'' MUTED (F_BODY g)]))
       (\<lambda>img. save env img ''infographic_security_model.png''))"

text \<open>
  The two loops of \<^verbatim>\<open>render_control_plane\<close>: the action lines, \<open>y\<close> advancing by 44,
  and the state rows, \<open>y\<close> advancing by 104.
\<close>

definition actions :: "string list" where
  "actions =
     [''tokfence start / stop / status'',
      ''tokfence launch / restart / logs'',
      ''tokfence kill / unkill / revoke / restore'',
      ''tokfence budget set / clear / status'',
      ''tokfence watch --once / --interval'']"

fun actions_loop :: "host \<Rightarrow> fonts \<Rightarrow> int \<Rightarrow> string list \<Rightarrow> image \<Rightarrow> error + image" where
  "actions_loop env g y [] d = Inr d"
| "actions_loop env g y (action # rest) d =
     and_then (text_at env d (84, y) (''- '' @ action) MUTED (F_BODY g)) (actions_loop env g (y + 44) rest)"

definition state_lines :: "(string \<times> string \<times> color) list" where
  "state_lines =
     [(''Daemon'', ''Online'', GREEN),
      (''Transport'', ''UDS preferred + TCP fallback'', BLUE),
      (''Capabilities'', ''Session scoped + signed'', GREEN),
      (''Risk'', ''GREEN / YELLOW / ORANGE / RED'', AMBER),
      (''Kill switch'', ''Immediate global block'', RED),
      (''Audit'', ''SQLite request logs + stats'', GREEN)]"

fun state_lines_loop ::
  "host \<Rightarrow> fonts \<Rightarrow> int \<Rightarrow> (string \<times> string \<times> color) list \<Rightarrow> image \<Rightarrow> error + image" where
  "state_lines_loop env g y [] d = Inr d"
| "state_lines_loop env g y ((key, val, col) # rest) d =
     and_then
       (block
         [\<lambda>d. rounded_rectangle env d (844, y, 1452, y + 90) 14 (Some SURFACE_ALT) (Some BORDER) 2,
          \<lambda>d. text_at env d (870, y + 20) key TEXT (F_H3 g),
          \<lambda>d. text_at env d (1110, y + 24) val col (F_BODY g)]
         d)
       (state_lines_loop env g (y + 104) rest)"

definition render_control_plane :: "host \<Rightarrow> fonts \<Rightarrow> error + string \<times> image" where
  "render_control_plane env g =
     and_then
       (and_then (Image_new env ''RGB'' (W, H) BG) (block
         [\<lambda>d. text_at env d (56, 40) ''Tokfence Control Plane'' TEXT (F_TITLE g),
          \<lambda>d. text_at env d (56, 112) ''Desktop + CLI operate the same local daemon state'' MUTED (F_CAP g),
          \<lambda>d. panel env g d 56 180 720 760 (Some ''Operator Surfaces''),
          \<lambda>d. bullet env g d 84 250 ''Agents tab: guided setup and runtime controls'' None,
          \<lambda>d. bullet env g d 84 300 ''Overview / Activity / Budget / Providers'' None,
          \<lambda>d. bullet env g d 84 350 ''Desktop snapshots for widget + menu bar'' None,
          \<lambda>d. bullet env g d 84 400 ''CLI JSON contract for desktop integration'' None,
          \<lambda>d. text_at env d (84, 490) ''Primary actions'' TEXT (F_H3 g),
          actions_loop env g 540 actions,
          \<lambda>d. panel env g d 816 180 664 760 (Some ''Runtime State''),
          state_lines_loop env g 250 state_lines]))
       (\<lambda>img. save env img ''infographic_control_plane.png'')"

text \<open>
  The marker loops of \<^verbatim>\<open>render_leak_detection\<close>: one filled circle of radius 5 around
  every mapped point.
\<close>

fun markers_loop :: "host \<Rightarrow> point list \<Rightarrow> color \<Rightarrow> image \<Rightarrow> error + image" where
  "markers_loop env [] c d = Inr d"
| "markers_loop env (p # ps) c d =
     and_then (ellipse env d (fst p - 5, snd p - 5, fst p + 5, snd p + 5) c) (markers_loop env ps c)"

definition render_leak_detection :: "host \<Rightarrow> fonts \<Rightarrow> error + string \<times> image" where
  "render_leak_detection env g =
     (let chart_x = 92; chart_y = 560; chart_w = 1360; chart_h = 300 in
      and_then
       (and_then (Image_new env ''RGB'' (W, H) BG) (block
         [\<lambda>d. text_at env d (56, 40) ''Key Leak Detector'' TEXT (F_TITLE g),
          \<lambda>d. text_at env d (56, 112) ''Compare provider usage vs Tokfence logs and raise incidents'' MUTED (F_CAP g),
          \<lambda>d. panel env g d 56 180 1424 260 (Some ''Detection Inputs''),
          \<lambda>d. bullet env g d 84 248 ''Local logs: request count, tokens, cost by provider'' None,
          \<lambda>d. bullet env g d 84 292 ''Remote usage endpoint: billing/usage totals'' None,
          \<lambda>d. bullet env g d 84 336 ''Thresholds: absolute delta + percentage + idle-window'' None,
          \<lambda>d. panel env g d 56 470 1424 470 (Some ''Detection Timeline''),
          \<lambda>d. rounded_rectangle env d (chart_x, chart_y, chart_x + chart_w, chart_y + chart_h) 12
                 (Some SURFACE_ALT) (Some BORDER) 2]))
       (\<lambda>d.
      and_then (to_xy chart_x chart_y chart_w chart_h points_local) (\<lambda>local_xy.
      and_then (to_xy chart_x chart_y chart_w chart_h points_remote) (\<lambda>remote_xy.
      and_then
       (block
         [\<lambda>d. line env d local_xy GREEN 5,
          \<lambda>d. line env d remote_xy RED 5,
          markers_loop env local_xy GREEN,
          markers_loop env remote_xy RED,
          \<lambda>d. text_at env d (chart_x + 30, chart_y + 18) ''Green = Tokfence local usage'' GREEN (F_CAP g),
          \<lambda>d. text_at env d (chart_x + 30, chart_y + 52) ''Red = provider-side usage'' RED (F_CAP g)]
         d)
       (\<lambda>d.
      and_then (int_of_product (float_lit 0.82) chart_w) (\<lambda>ix.
      and_then (int_of_product (float_lit 0.30) chart_h) (\<lambda>iy.
      let ax = chart_x + ix; ay = chart_y + iy in
      and_then
       (block
         [\<lambda>d. rounded_rectangle env d (ax - 170, ay - 120, ax + 220, ay + 30) 12
                 (Some ''#2B0E15'') (Some RED) 2,
          \<lambda>d. text_at env d (ax - 150, ay - 94) ''Delta exceeds threshold'' TEXT (F_BODY g),
          \<lambda>d. text_at env d (ax - 150, ay - 54) ''Risk -> RED, optional auto-revoke'' TEXT (F_CAP g),
          \<lambda>d. arrow env d (ax - 30) (ay - 8) (ax + 10) (ay + 18) (Some RED)]
         d)
       (\<lambda>img. save env img ''infographic_leak_detection.png''))))))))"

section \<open>Concrete hosts\<close>

text \<open>
  A library with Pillow's argument checks on a platform whose C long has 64 bits. It
  carries out a call when every colour is written in hexadecimal notation (\<open>#rgb\<close>,
  \<open>#rgba\<close>, \<open>#rrggbb\<close> or \<open>#rrggbbaa\<close>), every coordinate fits a C long and, for
  \<^verbatim>\<open>rounded_rectangle\<close> and \<^verbatim>\<open>ellipse\<close>, the box has \<open>x0 \<le> x1\<close> and \<open>y0 \<le> y1\<close>
  (a box with \<open>x1 = x0\<close> or \<open>y1 = y0\<close> is accepted). Pillow knows further notations for
  colours (names, \<open>rgb(...)\<close>); the script uses none of them. This library is an example
  of a host, exact where the theorems below use it: at the script's own colours and
  coordinates, at a coordinate of \<open>2\<^sup>6\<^sup>3\<close>, and at the string \<open>notacolor\<close>.
\<close>

definition hex_digit :: "char \<Rightarrow> bool" where
  "hex_digit c = (c \<in> set ''0123456789abcdefABCDEF'')"

definition hex_color :: "string \<Rightarrow> bool" where
  "hex_color s =
     (case s of
        [] \<Rightarrow> False
      | c # ds \<Rightarrow> c = CHR ''#'' \<and> length ds \<in> {3, 4, 6, 8} \<and> list_all hex_digit ds)"

definition hex_color_opt :: "string option \<Rightarrow> bool" where
  "hex_color_opt c = (case c of None \<Rightarrow> True | Some s \<Rightarrow> hex_color s)"

definition fits_long :: "int \<Rightarrow> bool" where
  "fits_long c = (- 9223372036854775808 \<le> c \<and> c < 9223372036854775808)"

definition point_fits :: "point \<Rightarrow> bool" where
  "point_fits p = (fits_long (fst p) \<and> fits_long (snd p))"

definition box_fits :: "box \<Rightarrow> bool" where
  "box_fits b =
     (case b of (x0, y0, x1, y1) \<Rightarrow> fits_long x0 \<and> fits_long y0 \<and> fits_long x1 \<and> fits_long y1)"

fun lp64_accepts :: "draw_op \<Rightarrow> bool" where
  "lp64_accepts (Rounded_rectangle xy radius fill outline width) =
     (box_ok xy \<and> hex_color_opt fill \<and> hex_color_opt outline \<and> box_fits xy)"
| "lp64_accepts (Text xy s fill f) = (hex_color fill \<and> point_fits xy)"
| "lp64_accepts (Line xy fill width) = (hex_color fill \<and> list_all point_fits xy)"
| "lp64_accepts (Polygon xy fill) = (hex_color fill \<and> list_all point_fits xy)"
| "lp64_accepts (Ellipse xy fill) = (box_ok xy \<and> hex_color fill \<and> box_fits xy)"

text \<open>
  A machine with this library, none of the candidate fonts and a writable output
  directory; the fonts it resolves; the blank canvas of a diagram.
\<close>

definition no_fonts_host :: host where
  "no_fonts_host =
     \<lparr>path_exists = (\<lambda>p. Inr False),
      truetype = (\<lambda>p sz. Inl FontError),
      accepts = lp64_accepts,
      creates = (\<lambda>m sz c. hex_color c),
      writes = (\<lambda>name. True)\<rparr>"

definition default_fonts :: fonts where
  "default_fonts =
     \<lparr>F_TITLE = DefaultFont, F_H2 = DefaultFont, F_H3 = DefaultFont,
      F_BODY = DefaultFont, F_CAP = DefaultFont\<rparr>"

definition blank :: image where
  "blank = \<lparr>mode = ''RGB'', dims = (W, H), background = BG, ops = []\<rparr>"

text \<open>
  A machine where every candidate exists and none loads; one where the first candidate
  exists but is not a font and the third one loads; one where the status of the first
  candidate cannot be read; one whose output directory is missing.
\<close>

definition broken_fonts_host :: host where
  "broken_fonts_host = no_fonts_host\<lparr>path_exists := (\<lambda>p. Inr True)\<rparr>"

definition arial_host :: host where
  "arial_host =
     no_fonts_host
       \<lparr>path_exists :=
          (\<lambda>p. Inr (p = ''/System/Library/Fonts/Supplemental/SF Pro Text.ttf''
                    \<or> p = ''/Library/Fonts/Arial.ttf'')),
        truetype :=
          (\<lambda>p sz. if p = ''/Library/Fonts/Arial.ttf'' then Inr (FreeTypeFont p sz)
                   else Inl FontError)\<rparr>"

definition denied_host :: host where
  "denied_host =
     no_fonts_host
       \<lparr>path_exists :=
          (\<lambda>p. if p = ''/System/Library/Fonts/Supplemental/SF Pro Text.ttf''
                then Inl PermissionError else Inr False)\<rparr>"

definition no_output_host :: host where
  "no_output_host = no_fonts_host\<lparr>writes := (\<lambda>name. False)\<rparr>"

section \<open>Properties of the concrete hosts\<close>

lemma theme_colors_hex:
  "hex_color BG" "hex_color SURFACE" "hex_color SURFACE_ALT" "hex_color BORDER"
  "hex_color TEXT" "hex_color MUTED" "hex_color GREEN" "hex_color RED" "hex_color BLUE"
  "hex_color AMBER" "hex_color ''#FB923C''" "hex_color ''#2B0E15''" "hex_color ''#0B1220''"
  by (simp_all add: hex_color_def hex_digit_def BG_def SURFACE_def SURFACE_ALT_def BORDER_def
      TEXT_def MUTED_def GREEN_def RED_def BLUE_def AMBER_def)

lemma notacolor_not_hex: "\<not> hex_color ''notacolor''"
  by (simp add: hex_color_def)

lemma no_fonts_host_simps:
  "accepts no_fonts_host = lp64_accepts"
  "creates no_fonts_host m sz c = hex_color c"
  "writes no_fonts_host name = True"
  "path_exists no_fonts_host p = Inr False"
  by (simp_all add: no_fonts_host_def)

lemmas host_eval =
  no_fonts_host_simps theme_colors_hex notacolor_not_hex hex_color_opt_def fits_long_def
  point_fits_def box_ok_def box_fits_def

section \<open>Properties of the composite shapes\<close>







section \<open>Properties of panel\<close>

lemma lp64_checks_box_order: "checks_box_order no_fonts_host"
  by (simp add: checks_box_order_def no_fonts_host_simps)

text \<open>
  C10. \<open>panel\<close> treats an empty title as an absent one: for every geometry the call with
  the empty string as title does exactly what the call without a title does, which is the
  rounded-rectangle call alone, with no text drawn.
\<close>

theorem panel_empty_title:
  "panel env g draw x y w h (Some []) = panel env g draw x y w h None
   \<and> panel env g draw x y w h None =
       rounded_rectangle env draw (x, y, x + w, y + h) 20 (Some SURFACE) (Some BORDER) 2"
  by (simp add: panel_def truthy_def split: sum.split)

theorem panel_empty_title_witness:
  "panel no_fonts_host default_fonts blank 56 180 280 260 (Some []) =
     Inr (blank\<lparr>ops := [Rounded_rectangle (56, 180, 336, 440) 20 (Some SURFACE) (Some BORDER) 2]\<rparr>)"
  using panel_empty_title [of no_fonts_host default_fonts blank 56 180 280 260]
  by (simp add: rounded_rectangle_def perform_def emit_def blank_def host_eval)

text \<open>
  C5, as the code has it. For every \<open>x\<close>, \<open>y\<close>, \<open>w > 0\<close>, \<open>h > 0\<close> and every
  non-empty title for which the drawing library carries out the rounded-rectangle call and
  the text call (Pillow on a 64-bit platform: coordinates within the range of a C long),
  \<open>panel\<close> draws exactly one rounded rectangle with bounding box \<open>(x, y, x + w, y + h)\<close>,
  radius 20 and a 2-pixel outline, and then the title at \<open>(x + 20, y + 14)\<close> in the
  panel-heading font. With bounds \<open>(56, 180, 280, 260)\<close> and the title \<open>Clients\<close> the
  text is anchored at \<open>(76, 194)\<close>.
\<close>

theorem panel_draws:
  "0 < w \<Longrightarrow> 0 < h \<Longrightarrow> t \<noteq> [] \<Longrightarrow>
   accepts env (Rounded_rectangle (x, y, x + w, y + h) 20 (Some SURFACE) (Some BORDER) 2) \<Longrightarrow>
   accepts env (Text (x + 20, y + 14) t TEXT (F_H3 g)) \<Longrightarrow>
   panel env g draw x y w h (Some t) =
     Inr (draw\<lparr>ops := ops draw @
            [Rounded_rectangle (x, y, x + w, y + h) 20 (Some SURFACE) (Some BORDER) 2,
             Text (x + 20, y + 14) t TEXT (F_H3 g)]\<rparr>)"
  by (simp add: panel_def truthy_def rounded_rectangle_def text_at_def perform_def emit_def)

theorem panel_draws_witness:
  "panel no_fonts_host default_fonts blank 56 180 280 260 (Some ''Clients'') =
     Inr (blank\<lparr>ops :=
            [Rounded_rectangle (56, 180, 336, 440) 20 (Some SURFACE) (Some BORDER) 2,
             Text (76, 194) ''Clients'' TEXT DefaultFont]\<rparr>)"
  using panel_draws [of 280 260 "''Clients''" no_fonts_host 56 180 default_fonts blank]
  by (simp add: blank_def default_fonts_def host_eval)

text \<open>
  The claim C5 as stated, for every position and every present title, fails at the empty
  title (the title is present, and no text is drawn) and at a box that reaches beyond the
  range of a C long (the rounded-rectangle call raises, with \<open>w\<close> and \<open>h\<close> positive).
\<close>

theorem panel_present_empty_title_counterexample:
  "panel no_fonts_host default_fonts blank 56 180 280 260 (Some []) =
     Inr (blank\<lparr>ops := [Rounded_rectangle (56, 180, 336, 440) 20 (Some SURFACE) (Some BORDER) 2]\<rparr>)
   \<and> panel no_fonts_host default_fonts blank 56 180 280 260 (Some []) \<noteq>
     Inr (blank\<lparr>ops :=
            [Rounded_rectangle (56, 180, 336, 440) 20 (Some SURFACE) (Some BORDER) 2,
             Text (76, 194) [] TEXT (F_H3 default_fonts)]\<rparr>)
   \<and> panel no_fonts_host default_fonts blank 9223372036854775528 180 280 260
         (Some ''Clients'') = Inl DrawError"
  by (simp add: panel_def truthy_def rounded_rectangle_def perform_def emit_def blank_def
      host_eval)

text \<open>
  C3, as the code has it. \<open>panel\<close> checks nothing itself: it hands the box
  \<open>(x, y, x + w, y + h)\<close> to the library, and it fails exactly when the library rejects a
  call it makes, the rounded rectangle or the text of a non-empty title; the library's
  exception passes to the caller. Where the library checks the order of the corners, as
  Pillow does, every call with \<open>w < 0\<close> or \<open>h < 0\<close> fails. A zero width or height is
  not rejected as such: when the library accepts the box, the call completes and the
  degenerate rectangle is drawn.
\<close>

theorem panel_geometry:
  "(checks_box_order env \<and> (w < 0 \<or> h < 0) \<longrightarrow>
      panel env g draw x y w h title = Inl DrawError)
   \<and> (\<not> accepts env
           (Rounded_rectangle (x, y, x + w, y + h) 20 (Some SURFACE) (Some BORDER) 2) \<longrightarrow>
      panel env g draw x y w h title = Inl DrawError)
   \<and> (accepts env (Rounded_rectangle (x, y, x + w, y + h) 20 (Some SURFACE) (Some BORDER) 2)
      \<and> \<not> truthy title \<longrightarrow>
      panel env g draw x y w h title =
        Inr (draw\<lparr>ops := ops draw @
               [Rounded_rectangle (x, y, x + w, y + h) 20 (Some SURFACE) (Some BORDER) 2]\<rparr>))
   \<and> (accepts env (Rounded_rectangle (x, y, x + w, y + h) 20 (Some SURFACE) (Some BORDER) 2)
      \<and> truthy title
      \<and> accepts env (Text (x + 20, y + 14) (the title) TEXT (F_H3 g)) \<longrightarrow>
      panel env g draw x y w h title =
        Inr (draw\<lparr>ops := ops draw @
               [Rounded_rectangle (x, y, x + w, y + h) 20 (Some SURFACE) (Some BORDER) 2,
                Text (x + 20, y + 14) (the title) TEXT (F_H3 g)]\<rparr>))
   \<and> (accepts env (Rounded_rectangle (x, y, x + w, y + h) 20 (Some SURFACE) (Some BORDER) 2)
      \<and> truthy title
      \<and> \<not> accepts env (Text (x + 20, y + 14) (the title) TEXT (F_H3 g)) \<longrightarrow>
      panel env g draw x y w h title = Inl DrawError)"
proof -
  have "\<not> accepts env
           (Rounded_rectangle (x, y, x + w, y + h) 20 (Some SURFACE) (Some BORDER) 2)"
    if "checks_box_order env" "w < 0 \<or> h < 0"
  proof -
    from that(2) have "\<not> box_ok (x, y, x + w, y + h)" by (auto simp add: box_ok_def)
    with that(1) show ?thesis unfolding checks_box_order_def by blast
  qed
  then show ?thesis
    by (auto simp add: panel_def rounded_rectangle_def text_at_def perform_def emit_def)
qed

theorem panel_geometry_witness:
  "panel no_fonts_host default_fonts blank 56 180 (- 280) 260 (Some ''Clients'') = Inl DrawError
   \<and> panel no_fonts_host default_fonts blank 56 180 280 (- 1) None = Inl DrawError
   \<and> panel no_fonts_host default_fonts blank 56 180 0 260 None =
       Inr (blank\<lparr>ops := [Rounded_rectangle (56, 180, 56, 440) 20 (Some SURFACE) (Some BORDER) 2]\<rparr>)
   \<and> panel no_fonts_host default_fonts blank 56 180 280 260 (Some ''Clients'') =
       Inr (blank\<lparr>ops :=
              [Rounded_rectangle (56, 180, 336, 440) 20 (Some SURFACE) (Some BORDER) 2,
               Text (76, 194) ''Clients'' TEXT DefaultFont]\<rparr>)"
  using panel_geometry [of no_fonts_host "- 280" 260 default_fonts blank 56 180 "Some ''Clients''"]
        panel_geometry [of no_fonts_host 280 "- 1" default_fonts blank 56 180 None]
        panel_geometry [of no_fonts_host 0 260 default_fonts blank 56 180 None]
        panel_geometry [of no_fonts_host 280 260 default_fonts blank 56 180 "Some ''Clients''"]
        lp64_checks_box_order
  by (simp add: truthy_def blank_def default_fonts_def host_eval)

text \<open>
  The claim C3 as stated fails at a zero width and height: the call completes and the
  degenerate rectangle is drawn.
\<close>

theorem panel_zero_size_counterexample:
  "panel no_fonts_host default_fonts blank 56 180 0 0 None =
     Inr (blank\<lparr>ops := [Rounded_rectangle (56, 180, 56, 180) 20 (Some SURFACE) (Some BORDER) 2]\<rparr>)"
  by (simp add: panel_def truthy_def rounded_rectangle_def perform_def emit_def blank_def
      host_eval)

section \<open>Properties of font resolution\<close>

lemma font_loop_find:
  assumes "\<forall>p \<in> set ps. \<not> isl (path_exists env p)"
  shows "font_loop env ps sz =
     Inr (case find (\<lambda>p. projr (path_exists env p) \<and> \<not> isl (truetype env p sz)) ps of
            Some p \<Rightarrow> projr (truetype env p sz)
          | None \<Rightarrow> load_default)"
  using assms by (induction ps) (auto split: sum.splits)

text \<open>
  Where every existence test answers, font resolution returns a handle: the font loaded
  from the first candidate, in the listed order, that exists and loads without raising, a
  missing candidate and a candidate whose load raises being passed over, and the built-in
  default font when there is no such candidate.
\<close>

lemma font_resolution:
  assumes "\<forall>p \<in> set candidates. \<not> isl (path_exists env p)"
  shows "font env sz bold =
     Inr (case find (\<lambda>p. projr (path_exists env p) \<and> \<not> isl (truetype env p sz))
                 candidates of
            Some p \<Rightarrow> projr (truetype env p sz)
          | None \<Rightarrow> load_default)"
  using assms by (simp add: font_def font_loop_find)

lemma font_resolution_examples:
  "font no_fonts_host 58 True = Inr DefaultFont"
  "font broken_fonts_host 24 False = Inr DefaultFont"
  "font arial_host 24 False = Inr (FreeTypeFont ''/Library/Fonts/Arial.ttf'' 24)"
  "load_fonts no_fonts_host = Inr default_fonts"
  by (simp_all add: font_def candidates_def no_fonts_host_def broken_fonts_host_def
      arial_host_def load_default_def load_fonts_def and_then_def default_fonts_def)

text \<open>
  C4 fails on the code. The existence test \<^verbatim>\<open>p.exists()\<close> stands outside the \<^verbatim>\<open>try\<close>
  that catches a failing load: on a host where the status of the first candidate cannot be
  read, the test raises, \<open>font\<close> raises with it for every size, and the module, which
  resolves its fonts while it is loaded, cannot be imported.
\<close>

theorem font_raises_when_probe_raises:
  "font denied_host 24 False = Inl PermissionError
   \<and> font denied_host 58 True = Inl PermissionError
   \<and> load_fonts denied_host = Inl PermissionError"
  by (simp add: font_def candidates_def denied_host_def no_fonts_host_def load_fonts_def
      and_then_def)

text \<open>
  C9. The \<open>bold\<close> argument has no effect: for every size and host, the bold and the
  regular request have the same outcome, the same handle or the same exception.
\<close>

theorem font_ignores_bold:
  "font env sz True = font env sz False"
  by (simp add: font_def)

section \<open>Properties of binary64 rounding\<close>

text \<open>\<open>floor_log2\<close> brackets its argument between two consecutive powers of two.\<close>

lemma powi_nonneg: "0 \<le> k \<Longrightarrow> (2::real) powi k = 2 ^ nat k"
  by (simp add: power_int_def)

lemma powi_neg: "0 \<le> k \<Longrightarrow> (2::real) powi (- k) = 1 / 2 ^ nat k"
  by (simp add: power_int_minus powi_nonneg inverse_eq_divide)

lemma floor_log2_bounds_ge1:
  assumes "1 \<le> q"
  shows "2 powi (floor_log2 q) \<le> q \<and> q < 2 powi (floor_log2 q + 1)"
proof -
  define n where "n = \<lfloor>q\<rfloor>"
  have n1: "1 \<le> n" using assms by (simp add: n_def)
  then have n0: "0 < n" by simp
  define k where "k = bitlen n - 1"
  have k0: "0 \<le> k" using n0 by (simp add: k_def bitlen_alt_def)
  from bitlen_bounds [OF n0] have b: "2 ^ nat k \<le> n" "n < 2 ^ nat (k + 1)"
    by (simp_all add: k_def)
  have fq: "floor_log2 q = k" using assms by (simp add: floor_log2_def k_def n_def)
  have "2 ^ nat k \<le> real_of_int n" using b(1) by simp
  moreover have "real_of_int n \<le> q" by (simp add: n_def)
  ultimately have "2 ^ nat k \<le> q" by linarith
  then have lo: "2 powi k \<le> q" using k0 by (simp add: powi_nonneg)
  have "n + 1 \<le> 2 ^ nat (k + 1)" using b(2) by simp
  then have "real_of_int (n + 1) \<le> 2 ^ nat (k + 1)"
    by (simp only: of_int_le_numeral_power_cancel_iff)
  moreover have "q < real_of_int (n + 1)" by (simp add: n_def)
  ultimately have "q < 2 ^ nat (k + 1)" by linarith
  then have hi: "q < 2 powi (k + 1)" using k0 by (simp add: powi_nonneg)
  from lo hi fq show ?thesis by simp
qed


lemma floor_log2_bounds_lt1:
  assumes "0 < q" "q < 1"
  shows "2 powi (floor_log2 q) \<le> q \<and> q < 2 powi (floor_log2 q + 1)"
proof -
  define x where "x = 1 / q"
  have x1: "1 < x" using assms by (simp add: x_def)
  define m where "m = \<lceil>x\<rceil> - 1"
  have "1 < \<lceil>x\<rceil>" using x1 by (simp add: less_ceiling_iff)
  then have m1: "1 \<le> m" by (simp add: m_def)
  then have m0: "0 < m" by simp
  have mx1: "real_of_int m < x" unfolding m_def by linarith
  have mx2: "x \<le> real_of_int (m + 1)" unfolding m_def by simp
  define L where "L = bitlen m"
  have L1: "1 \<le> L" using m0 by (simp add: L_def bitlen_alt_def)
  from bitlen_bounds [OF m0] have b: "2 ^ nat (L - 1) \<le> m" "m < 2 ^ nat L"
    by (simp_all add: L_def)
  have fq: "floor_log2 q = - L" using assms by (simp add: floor_log2_def L_def m_def x_def)
  have "2 ^ nat (L - 1) \<le> real_of_int m" using b(1) by simp
  with mx1 have lo: "2 ^ nat (L - 1) < x" by linarith
  have "m + 1 \<le> 2 ^ nat L" using b(2) by simp
  then have "real_of_int (m + 1) \<le> 2 ^ nat L"
    by (simp only: of_int_le_numeral_power_cancel_iff)
  with mx2 have hi: "x \<le> 2 ^ nat L" by linarith
  have qx: "q = inverse x" using assms by (simp add: x_def inverse_eq_divide)
  have x0: "0 < x" using x1 by linarith
  have "inverse (2 ^ nat L) \<le> inverse x" using hi x0 by (rule le_imp_inverse_le)
  moreover have "(2::real) powi (- L) = inverse (2 ^ nat L)"
    using L1 by (simp add: power_int_minus powi_nonneg)
  ultimately have A: "2 powi (- L) \<le> q" by (simp only: qx)
  have "inverse x < inverse (2 ^ nat (L - 1))" using lo by (rule less_imp_inverse_less) simp
  moreover have "(2::real) powi (- L + 1) = inverse (2 ^ nat (L - 1))"
    using power_int_minus [of "2::real" "L - 1"] powi_nonneg [of "L - 1"] L1 by simp
  ultimately have B: "q < 2 powi (- L + 1)" by (simp only: qx)
  from A B show ?thesis by (simp only: fq)
qed

lemma floor_log2_bounds:
  assumes "0 < q"
  shows "2 powi (floor_log2 q) \<le> q \<and> q < 2 powi (floor_log2 q + 1)"
  using assms floor_log2_bounds_ge1 [of q] floor_log2_bounds_lt1 [of q]
  by (cases "1 \<le> q") simp_all

text \<open>Rounding to the nearest integer is monotone, odd and exact on integers.\<close>

lemma round_half_even_of_int: "round_half_even (of_int n) = n"
  by (simp add: round_half_even_def)

lemma round_half_even_mono:
  assumes "x \<le> y" shows "round_half_even x \<le> round_half_even y"
proof -
  have fl: "\<lfloor>x\<rfloor> \<le> \<lfloor>y\<rfloor>" using assms by (rule floor_mono)
  have ux: "round_half_even x \<le> \<lfloor>x\<rfloor> + 1"
    by (simp add: round_half_even_def Let_def)
  have ly: "\<lfloor>y\<rfloor> \<le> round_half_even y"
    by (simp add: round_half_even_def Let_def)
  show ?thesis
  proof (cases "\<lfloor>x\<rfloor> = \<lfloor>y\<rfloor>")
    case True
    with assms show ?thesis
      by (auto simp add: round_half_even_def Let_def)
  next
    case False
    with fl have "\<lfloor>x\<rfloor> + 1 \<le> \<lfloor>y\<rfloor>" by simp
    with ux ly show ?thesis by linarith
  qed
qed

lemma round_half_even_minus: "round_half_even (- q) = - round_half_even q"
proof (cases "q = of_int \<lfloor>q\<rfloor>")
  case True
  then obtain n where "q = of_int n" ..
  then have "- q = of_int (- n)" by simp
  then show ?thesis using \<open>q = of_int n\<close> by (simp only: round_half_even_of_int)
next
  case False
  define f where "f = \<lfloor>q\<rfloor>"
  have lo: "of_int f < q" unfolding f_def
    by (rule order.not_eq_order_implies_strict [OF not_sym [OF False] of_int_floor_le])
  have hi: "q < of_int f + 1" by (simp add: f_def)
  have fm: "\<lfloor>- q\<rfloor> = - f - 1"
    using lo hi by (intro floor_unique) simp_all
  show ?thesis
    using lo hi unfolding round_half_even_def Let_def fm f_def [symmetric]
    by auto
qed

lemma powi_less_imp_less:
  assumes "(2::real) powi a < 2 powi b" shows "a < b"
proof (rule ccontr)
  assume "\<not> a < b"
  then have "b \<le> a" by simp
  then have "(2::real) powi b \<le> 2 powi a" by (rule power_int_increasing) simp
  with assms show False by simp
qed

lemma floor_log2_mono:
  assumes "0 < x" "x \<le> y"
  shows "floor_log2 x \<le> floor_log2 y"
proof -
  have y0: "0 < y" using assms by linarith
  have "2 powi floor_log2 x \<le> x" using floor_log2_bounds [OF assms(1)] by simp
  moreover have "y < 2 powi (floor_log2 y + 1)" using floor_log2_bounds [OF y0] by simp
  ultimately have "(2::real) powi floor_log2 x < 2 powi (floor_log2 y + 1)"
    using assms(2) by linarith
  then have "floor_log2 x < floor_log2 y + 1" by (rule powi_less_imp_less)
  then show ?thesis by simp
qed

lemma pow2_of_int: "(2::real) ^ k = of_int (2 ^ k)"
  by (simp only: of_int_power of_int_numeral)

lemma round_half_even_le:
  assumes "x \<le> 2 ^ k" shows "real_of_int (round_half_even x) \<le> 2 ^ k"
proof -
  from assms have "x \<le> of_int (2 ^ k)" by (simp only: pow2_of_int)
  then have "round_half_even x \<le> round_half_even (of_int (2 ^ k))"
    by (rule round_half_even_mono)
  then have "round_half_even x \<le> 2 ^ k" by (simp only: round_half_even_of_int)
  then have "real_of_int (round_half_even x) \<le> of_int (2 ^ k)" by (simp only: of_int_le_iff)
  then show ?thesis by (simp only: pow2_of_int)
qed

lemma round_half_even_ge:
  assumes "2 ^ k \<le> x" shows "2 ^ k \<le> real_of_int (round_half_even x)"
proof -
  from assms have "of_int (2 ^ k) \<le> x" by (simp only: pow2_of_int)
  then have "round_half_even (of_int (2 ^ k)) \<le> round_half_even x"
    by (rule round_half_even_mono)
  then have "2 ^ k \<le> round_half_even x" by (simp only: round_half_even_of_int)
  then have "real_of_int (2 ^ k) \<le> of_int (round_half_even x)" by (simp only: of_int_le_iff)
  then show ?thesis by (simp only: pow2_of_int)
qed

lemma scaled_round_upper:
  assumes "0 < P" "q \<le> P * 2 ^ k"
  shows "of_int (round_half_even (q / P)) * P \<le> P * 2 ^ k"
proof -
  from assms(2) have "q \<le> 2 ^ k * P" by (simp only: mult.commute)
  then have "q / P \<le> 2 ^ k" using assms(1) by (simp only: pos_divide_le_eq)
  then have "real_of_int (round_half_even (q / P)) \<le> 2 ^ k" by (rule round_half_even_le)
  then have "real_of_int (round_half_even (q / P)) * P \<le> 2 ^ k * P"
    using assms(1) by (rule mult_right_mono [OF _ less_imp_le])
  then show ?thesis by (simp only: mult.commute)
qed

lemma scaled_round_lower:
  assumes "0 < P" "P * 2 ^ k \<le> q"
  shows "P * 2 ^ k \<le> of_int (round_half_even (q / P)) * P"
proof -
  from assms(2) have "2 ^ k * P \<le> q" by (simp only: mult.commute)
  then have "2 ^ k \<le> q / P" using assms(1) by (simp only: pos_le_divide_eq)
  then have "2 ^ k \<le> real_of_int (round_half_even (q / P))" by (rule round_half_even_ge)
  then have "2 ^ k * P \<le> real_of_int (round_half_even (q / P)) * P"
    using assms(1) by (rule mult_right_mono [OF _ less_imp_le])
  then show ?thesis by (simp only: mult.commute)
qed

text \<open>
  A positive value rounds into the binade of its exponent: the result lies between
  \<open>2\<^sup>5\<^sup>2\<close> and \<open>2\<^sup>5\<^sup>3\<close> units in the last place.
\<close>

lemma round_binary64_unfold:
  "q \<noteq> 0 \<Longrightarrow>
   round_binary64 q =
     of_int (round_half_even (q / 2 powi ulp_exponent q)) * 2 powi ulp_exponent q"
  by (simp add: round_binary64_def Let_def)

lemma powi_add_nat: "(2::real) powi (e + int k) = 2 powi e * 2 ^ k"
  by (simp add: power_int_add)

lemma powi_pos: "0 < (2::real) powi e"
  by simp

lemma round_binary64_upper:
  assumes "0 < q"
  shows "round_binary64 q \<le> 2 powi (ulp_exponent q + int 53)"
proof -
  define e where "e = ulp_exponent q"
  have q0: "q \<noteq> 0" using assms by simp
  have aq: "\<bar>q\<bar> = q" using assms by simp
  have "floor_log2 q - 52 \<le> e" unfolding e_def ulp_exponent_def aq by (rule max.cobounded1)
  then have "floor_log2 q + 1 \<le> e + int 53" by simp
  then have "(2::real) powi (floor_log2 q + 1) \<le> 2 powi (e + int 53)"
    by (rule power_int_increasing) simp
  moreover have "q < 2 powi (floor_log2 q + 1)" using floor_log2_bounds [OF assms] by (rule conjunct2)
  ultimately have "q \<le> 2 powi (e + int 53)" by linarith
  then have "q \<le> 2 powi e * 2 ^ 53" by (simp only: powi_add_nat)
  with powi_pos have "real_of_int (round_half_even (q / 2 powi e)) * 2 powi e \<le> 2 powi e * 2 ^ 53"
    by (rule scaled_round_upper)
  then show ?thesis
    by (simp only: round_binary64_unfold [OF q0] e_def [symmetric] powi_add_nat)
qed

lemma round_binary64_lower:
  assumes "0 < q" "- 1074 < ulp_exponent q"
  shows "2 powi (ulp_exponent q + int 52) \<le> round_binary64 q"
proof -
  define e where "e = ulp_exponent q"
  have q0: "q \<noteq> 0" using assms by simp
  have aq: "\<bar>q\<bar> = q" using assms by simp
  have "e = max (floor_log2 q - 52) (- 1074)" unfolding e_def ulp_exponent_def aq ..
  moreover have "- 1074 < e" using assms(2) by (simp only: e_def)
  ultimately have "e + int 52 = floor_log2 q" by (simp add: max_def split: if_splits)
  moreover have "2 powi floor_log2 q \<le> q" using floor_log2_bounds [OF assms(1)] by (rule conjunct1)
  ultimately have "2 powi (e + int 52) \<le> q" by (simp only:)
  then have "2 powi e * 2 ^ 52 \<le> q" by (simp only: powi_add_nat)
  with powi_pos have "2 powi e * 2 ^ 52 \<le> real_of_int (round_half_even (q / 2 powi e)) * 2 powi e"
    by (rule scaled_round_lower)
  then show ?thesis
    by (simp only: round_binary64_unfold [OF q0] e_def [symmetric] powi_add_nat)
qed

text \<open>Rounding to binary64 is monotone, and exact on the integers up to \<open>2\<^sup>5\<^sup>3\<close>.\<close>

lemma ulp_exponent_mono:
  assumes "0 < x" "x \<le> y"
  shows "ulp_exponent x \<le> ulp_exponent y"
proof -
  have "\<bar>x\<bar> = x" "\<bar>y\<bar> = y" using assms by simp_all
  moreover have "floor_log2 x \<le> floor_log2 y" using assms by (rule floor_log2_mono)
  ultimately show ?thesis by (simp add: ulp_exponent_def)
qed

lemma ulp_exponent_ge: "- 1074 \<le> ulp_exponent q"
  by (simp add: ulp_exponent_def)

lemma ulp_exponent_minus: "ulp_exponent (- q) = ulp_exponent q"
  by (simp add: ulp_exponent_def)

lemma round_binary64_zero: "round_binary64 0 = 0"
  by (simp add: round_binary64_def)

lemma round_binary64_minus: "round_binary64 (- q) = - round_binary64 q"
proof (cases "q = 0")
  case True
  then show ?thesis by (simp add: round_binary64_zero)
next
  case False
  then have nz: "- q \<noteq> 0" by simp
  show ?thesis
    unfolding round_binary64_unfold [OF nz] round_binary64_unfold [OF False] ulp_exponent_minus
    by (simp add: round_half_even_minus)
qed

lemma round_binary64_mono_same:
  assumes "x \<noteq> 0" "y \<noteq> 0" "x \<le> y" "ulp_exponent x = ulp_exponent y"
  shows "round_binary64 x \<le> round_binary64 y"
proof -
  define P where "P = (2::real) powi ulp_exponent y"
  have P0: "0 \<le> P" unfolding P_def by (rule less_imp_le [OF powi_pos])
  have "x / P \<le> y / P" using assms(3) P0 by (rule divide_right_mono)
  then have "round_half_even (x / P) \<le> round_half_even (y / P)"
    by (rule round_half_even_mono)
  then have "real_of_int (round_half_even (x / P)) \<le> real_of_int (round_half_even (y / P))"
    by (simp only: of_int_le_iff)
  then have "real_of_int (round_half_even (x / P)) * P \<le> real_of_int (round_half_even (y / P)) * P"
    using P0 by (rule mult_right_mono)
  then show ?thesis
    by (simp only: round_binary64_unfold [OF assms(1)] round_binary64_unfold [OF assms(2)]
        assms(4) P_def)
qed

lemma round_binary64_mono_pos:
  assumes "0 < x" "x \<le> y"
  shows "round_binary64 x \<le> round_binary64 y"
proof (cases "ulp_exponent x = ulp_exponent y")
  case True
  have "x \<noteq> 0" "y \<noteq> 0" using assms by simp_all
  then show ?thesis using assms(2) True by (rule round_binary64_mono_same)
next
  case False
  have y0: "0 < y" using assms by linarith
  have "ulp_exponent x \<le> ulp_exponent y" using assms by (rule ulp_exponent_mono)
  with False have lt: "ulp_exponent x < ulp_exponent y" by simp
  with ulp_exponent_ge [of x] have gt: "- 1074 < ulp_exponent y" by linarith
  from lt have "ulp_exponent x + int 53 \<le> ulp_exponent y + int 52" by simp
  then have "(2::real) powi (ulp_exponent x + int 53) \<le> 2 powi (ulp_exponent y + int 52)"
    by (rule power_int_increasing) simp
  moreover have "round_binary64 x \<le> 2 powi (ulp_exponent x + int 53)"
    using assms(1) by (rule round_binary64_upper)
  moreover have "2 powi (ulp_exponent y + int 52) \<le> round_binary64 y"
    using y0 gt by (rule round_binary64_lower)
  ultimately show ?thesis by linarith
qed

lemma round_binary64_nonneg:
  assumes "0 \<le> q" shows "0 \<le> round_binary64 q"
proof (cases "q = 0")
  case True
  then show ?thesis by (simp add: round_binary64_zero)
next
  case False
  define P where "P = (2::real) powi ulp_exponent q"
  have P0: "0 \<le> P" unfolding P_def by (rule less_imp_le [OF powi_pos])
  have "0 \<le> q / P" using assms P0 by (rule divide_nonneg_nonneg)
  then have "real_of_int 0 \<le> q / P" by simp
  then have "round_half_even (real_of_int 0) \<le> round_half_even (q / P)"
    by (rule round_half_even_mono)
  then have "0 \<le> round_half_even (q / P)" by (simp only: round_half_even_of_int)
  then have "0 \<le> real_of_int (round_half_even (q / P))" by simp
  then have "0 \<le> real_of_int (round_half_even (q / P)) * P"
    using P0 by (rule mult_nonneg_nonneg)
  then show ?thesis by (simp only: round_binary64_unfold [OF False] P_def)
qed

lemma round_binary64_mono:
  assumes "x \<le> y"
  shows "round_binary64 x \<le> round_binary64 y"
proof -
  consider "0 < x" | "x \<le> 0" "0 \<le> y" | "y < 0" by linarith
  then show ?thesis
  proof cases
    case 1
    then show ?thesis using assms by (rule round_binary64_mono_pos)
  next
    case 2
    from 2(1) have "0 \<le> - x" by simp
    then have "0 \<le> round_binary64 (- x)" by (rule round_binary64_nonneg)
    then have "round_binary64 x \<le> 0" by (simp add: round_binary64_minus)
    moreover have "0 \<le> round_binary64 y" using 2(2) by (rule round_binary64_nonneg)
    ultimately show ?thesis by linarith
  next
    case 3
    then have "0 < - y" by simp
    moreover have "- y \<le> - x" using assms by simp
    ultimately have "round_binary64 (- y) \<le> round_binary64 (- x)"
      by (rule round_binary64_mono_pos)
    then show ?thesis by (simp add: round_binary64_minus)
  qed
qed

lemma round_binary64_exact:
  assumes "q \<noteq> 0" "q / 2 powi ulp_exponent q = of_int m"
  shows "round_binary64 q = q"
proof -
  have "round_binary64 q = of_int m * 2 powi ulp_exponent q"
    by (simp only: round_binary64_unfold [OF assms(1)] assms(2) round_half_even_of_int)
  also have "\<dots> = q / 2 powi ulp_exponent q * 2 powi ulp_exponent q"
    by (simp only: assms(2))
  also have "\<dots> = q" using powi_pos [of "ulp_exponent q"] by simp
  finally show ?thesis .
qed

lemma round_binary64_of_int:
  assumes "0 < n" "n \<le> 2 ^ 53"
  shows "round_binary64 (of_int n) = of_int n"
proof -
  define q where "q = real_of_int n"
  have q0: "0 < q" using assms(1) by (simp add: q_def)
  have qn: "q \<noteq> 0" using q0 by simp
  have q1: "1 \<le> q" using assms(1) by (simp add: q_def)
  have "real_of_int n \<le> of_int (2 ^ 53)" using assms(2) by (simp only: of_int_le_iff)
  then have q53: "q \<le> 2 ^ 53" by (simp only: q_def pow2_of_int)
  define fl where "fl = floor_log2 q"
  have lo: "2 powi fl \<le> q" and hi: "q < 2 powi (fl + 1)"
    using floor_log2_bounds [OF q0] by (simp_all add: fl_def)
  have "(2::real) powi 0 < 2 powi (fl + 1)" using q1 hi by simp
  then have "0 < fl + 1" by (rule powi_less_imp_less)
  then have fl0: "0 \<le> fl" by simp
  have "(2::real) ^ 53 < 2 ^ 54" by (rule power_strict_increasing) simp_all
  then have "(2::real) powi fl < 2 powi 54" using lo q53 by (simp add: powi_nonneg)
  then have fl54: "fl < 54" by (rule powi_less_imp_less)
  have e: "ulp_exponent q = fl - 52" using q0 fl0 by (simp add: ulp_exponent_def fl_def)
  show ?thesis
  proof (cases "fl \<le> 52")
    case True
    define j where "j = nat (52 - fl)"
    have ej: "ulp_exponent q = - int j" using True by (simp add: e j_def)
    have "q / 2 powi ulp_exponent q = q * 2 ^ j"
      unfolding ej using powi_neg [of "int j"] by simp
    also have "\<dots> = of_int (n * 2 ^ j)" by (simp add: q_def)
    finally have ex: "q / 2 powi ulp_exponent q = of_int (n * 2 ^ j)" .
    have "round_binary64 q = q" using qn ex by (rule round_binary64_exact)
    then show ?thesis by (simp only: q_def)
  next
    case False
    with fl54 have f53: "fl = 53" by simp
    then have "2 ^ 53 \<le> q" using lo by (simp add: powi_nonneg)
    with q53 have qe: "q = 2 ^ 53" by simp
    have "ulp_exponent q = 1" using e f53 by simp
    then have "q / 2 powi ulp_exponent q = 2 ^ 52" by (simp add: qe)
    also have "\<dots> = of_int (2 ^ 52)" by (simp only: pow2_of_int)
    finally have ex: "q / 2 powi ulp_exponent q = of_int (2 ^ 52)" .
    have "round_binary64 q = q" using qn ex by (rule round_binary64_exact)
    then show ?thesis by (simp only: q_def)
  qed
qed

section \<open>Properties of the chart mapping\<close>

lemma to_binary64_Finite:
  "to_binary64 q = Finite r \<Longrightarrow> r = round_binary64 q"
  by (simp add: to_binary64_def Let_def split: if_splits)

lemma to_binary64_small:
  assumes "0 \<le> round_binary64 q" "round_binary64 q \<le> 2 ^ 53"
  shows "to_binary64 q = Finite (round_binary64 q)"
proof -
  have "(2::real) ^ 53 < 2 ^ 1024" by (rule power_strict_increasing) simp_all
  with assms(2) have a: "\<not> 2 ^ 1024 \<le> round_binary64 q" by linarith
  have "(0::real) < 2 ^ 1024" by (rule zero_less_power) simp
  with assms(1) have b: "\<not> round_binary64 q \<le> - (2 ^ 1024)" by linarith
  show ?thesis unfolding to_binary64_def Let_def using a b by (simp only: if_False)
qed

lemma float_of_int_exact:
  assumes "0 < n" "n \<le> 2 ^ 53"
  shows "float_of_int n = Inr (Finite (of_int n))"
proof -
  have r: "round_binary64 (of_int n) = of_int n" using assms by (rule round_binary64_of_int)
  have "real_of_int n \<le> of_int (2 ^ 53)" using assms(2) by (simp only: of_int_le_iff)
  then have "real_of_int n \<le> 2 ^ 53" by (simp only: pow2_of_int)
  moreover have "0 \<le> real_of_int n" using assms(1) by simp
  ultimately have "to_binary64 (of_int n) = Finite (of_int n)"
    using to_binary64_small [of "of_int n"] by (simp only: r)
  then show ?thesis by (simp add: float_of_int_def)
qed

lemma float_lit_zero: "float_lit 0 = Finite 0"
  using to_binary64_small [of 0] by (simp add: float_lit_def round_binary64_zero)

lemma float_lit_one: "float_lit 1 = Finite 1"
proof -
  have "round_binary64 (of_int 1) = of_int 1" by (rule round_binary64_of_int) simp_all
  then have r: "round_binary64 1 = 1" by simp
  have "(1::real) \<le> 2 ^ 53" by (rule one_le_power) simp
  then show ?thesis using to_binary64_small [of 1] by (simp add: float_lit_def r)
qed

lemma int_of_product_zero:
  assumes "0 < n" "n \<le> 2 ^ 53"
  shows "int_of_product (float_lit 0) n = Inr 0"
  using to_binary64_small [of 0]
  by (simp add: int_of_product_def float_of_int_exact [OF assms] float_lit_zero
      round_binary64_zero)

lemma int_of_product_one:
  assumes "0 < n" "n \<le> 2 ^ 53"
  shows "int_of_product (float_lit 1) n = Inr n"
proof -
  have r: "round_binary64 (of_int n) = of_int n" using assms by (rule round_binary64_of_int)
  have "real_of_int n \<le> of_int (2 ^ 53)" using assms(2) by (simp only: of_int_le_iff)
  then have "real_of_int n \<le> 2 ^ 53" by (simp only: pow2_of_int)
  moreover have "0 \<le> real_of_int n" using assms(1) by simp
  ultimately have "to_binary64 (of_int n) = Finite (of_int n)"
    using to_binary64_small [of "of_int n"] by (simp only: r)
  then show ?thesis using assms(1)
    by (simp add: int_of_product_def float_of_int_exact [OF assms] float_lit_one)
qed

lemma float_of_int_Inr:
  assumes "float_of_int n = Inr f"
  shows "f = Finite (round_binary64 (of_int n))"
proof (cases "to_binary64 (real_of_int n)")
  case (Finite r)
  then have "r = round_binary64 (of_int n)" by (rule to_binary64_Finite)
  with assms Finite show ?thesis by (simp add: float_of_int_def)
qed (use assms in \<open>simp_all add: float_of_int_def\<close>)

lemma float_mul_Finite:
  "float_mul p (Finite B) = Finite r \<Longrightarrow> \<exists>a. p = Finite a \<and> r = round_binary64 (a * B)"
  by (cases p) (auto dest: to_binary64_Finite split: if_splits)

lemma py_int_Inr:
  "py_int f = Inr i \<Longrightarrow> \<exists>r. f = Finite r \<and> i = (if 0 \<le> r then \<lfloor>r\<rfloor> else \<lceil>r\<rceil>)"
  by (cases f) auto

lemma trunc_mono:
  assumes "(r::real) \<le> s"
  shows "(if 0 \<le> r then \<lfloor>r\<rfloor> else \<lceil>r\<rceil>) \<le> (if 0 \<le> s then \<lfloor>s\<rfloor> else \<lceil>s\<rceil>)"
proof (cases "0 \<le> r")
  case True
  then have "0 \<le> s" using assms by linarith
  with True show ?thesis using floor_mono [OF assms] by simp
next
  case False
  show ?thesis
  proof (cases "0 \<le> s")
    case True
    have "\<lceil>r\<rceil> \<le> 0" using False by (simp add: ceiling_le_iff)
    moreover have "0 \<le> \<lfloor>s\<rfloor>" using True by simp
    ultimately have "\<lceil>r\<rceil> \<le> \<lfloor>s\<rfloor>" by linarith
    then show ?thesis using False True by (simp only: if_True if_False)
  next
    case False
    with \<open>\<not> 0 \<le> r\<close> show ?thesis using ceiling_mono [OF assms] by simp
  qed
qed

lemma int_of_product_mono:
  assumes "0 \<le> n" "float_le p1 p2"
    and "int_of_product p1 n = Inr i1" "int_of_product p2 n = Inr i2"
  shows "i1 \<le> i2"
proof -
  define B where "B = round_binary64 (of_int n)"
  have B0: "0 \<le> B" unfolding B_def using assms(1) by (intro round_binary64_nonneg) simp
  from assms(3) obtain f where f: "float_of_int n = Inr f"
    by (auto simp add: int_of_product_def split: sum.splits)
  then have fB: "f = Finite B" unfolding B_def by (rule float_of_int_Inr)
  from assms(3) f fB have "py_int (float_mul p1 (Finite B)) = Inr i1"
    by (simp add: int_of_product_def)
  then obtain r1 where r1: "float_mul p1 (Finite B) = Finite r1"
      "i1 = (if 0 \<le> r1 then \<lfloor>r1\<rfloor> else \<lceil>r1\<rceil>)"
    using py_int_Inr by blast
  from assms(4) f fB have "py_int (float_mul p2 (Finite B)) = Inr i2"
    by (simp add: int_of_product_def)
  then obtain r2 where r2: "float_mul p2 (Finite B) = Finite r2"
      "i2 = (if 0 \<le> r2 then \<lfloor>r2\<rfloor> else \<lceil>r2\<rceil>)"
    using py_int_Inr by blast
  from r1(1) obtain a where a: "p1 = Finite a" "r1 = round_binary64 (a * B)"
    using float_mul_Finite by blast
  from r2(1) obtain b where b: "p2 = Finite b" "r2 = round_binary64 (b * B)"
    using float_mul_Finite by blast
  from assms(2) have "a \<le> b" by (simp add: a(1) b(1))
  then have "a * B \<le> b * B" using B0 by (rule mult_right_mono)
  then have "r1 \<le> r2" unfolding a(2) b(2) by (rule round_binary64_mono)
  then show ?thesis unfolding r1(2) r2(2) by (rule trunc_mono)
qed

lemmas float_eval =
  float_lit_def to_binary64_def round_binary64_def ulp_exponent_def floor_log2_def
  compute_bitlen round_half_even_def Let_def power_int_minus int_of_product_def
  float_of_int_def

lemma to_xy_two:
  assumes "to_xy b_x b_y b_w b_h [p1, p2] = Inr [q1, q2]"
  shows "\<exists>i1 j1 i2 j2.
           int_of_product (fst p1) b_w = Inr i1 \<and> int_of_product (snd p1) b_h = Inr j1 \<and>
           int_of_product (fst p2) b_w = Inr i2 \<and> int_of_product (snd p2) b_h = Inr j2 \<and>
           q1 = (b_x + i1, b_y + j1) \<and> q2 = (b_x + i2, b_y + j2)"
  using assms by (cases p1; cases p2) (auto split: sum.splits)

text \<open>
  C6, as the code has it. For chart bounds \<open>(b_x, b_y, b_w, b_h)\<close> whose width and
  height are positive and at most \<open>2\<^sup>5\<^sup>3\<close> (so that the float product is exact), the
  normalized point \<open>(0, 0)\<close> maps to the pixel \<open>(b_x, b_y)\<close> and the point \<open>(1, 1)\<close>
  to \<open>(b_x + b_w, b_y + b_h)\<close>. For every positive width and height, of any size, the
  mapping preserves order in each coordinate: whenever two points are both mapped, and
  \<open>p1.x \<le> p2.x\<close>, then \<open>mapped(p1).x \<le> mapped(p2).x\<close>, and likewise for \<open>y\<close>.
\<close>

theorem to_xy_corners_and_order:
  "(0 < b_w \<and> b_w \<le> 2 ^ 53 \<and> 0 < b_h \<and> b_h \<le> 2 ^ 53 \<longrightarrow>
      to_xy b_x b_y b_w b_h [(float_lit 0, float_lit 0), (float_lit 1, float_lit 1)] =
        Inr [(b_x, b_y), (b_x + b_w, b_y + b_h)])
   \<and> (0 < b_w \<and> 0 < b_h \<and> to_xy b_x b_y b_w b_h [p1, p2] = Inr [q1, q2] \<longrightarrow>
      (float_le (fst p1) (fst p2) \<longrightarrow> fst q1 \<le> fst q2) \<and>
      (float_le (snd p1) (snd p2) \<longrightarrow> snd q1 \<le> snd q2))"
proof (intro conjI impI)
  assume "0 < b_w \<and> b_w \<le> 2 ^ 53 \<and> 0 < b_h \<and> b_h \<le> 2 ^ 53"
  then have w: "0 < b_w" "b_w \<le> 2 ^ 53" and h: "0 < b_h" "b_h \<le> 2 ^ 53" by simp_all
  show "to_xy b_x b_y b_w b_h [(float_lit 0, float_lit 0), (float_lit 1, float_lit 1)] =
        Inr [(b_x, b_y), (b_x + b_w, b_y + b_h)]"
    by (simp add: int_of_product_zero [OF w] int_of_product_zero [OF h]
        int_of_product_one [OF w] int_of_product_one [OF h])
next
  assume a: "0 < b_w \<and> 0 < b_h \<and> to_xy b_x b_y b_w b_h [p1, p2] = Inr [q1, q2]"
  then obtain i1 j1 i2 j2 where
    m: "int_of_product (fst p1) b_w = Inr i1" "int_of_product (snd p1) b_h = Inr j1"
       "int_of_product (fst p2) b_w = Inr i2" "int_of_product (snd p2) b_h = Inr j2"
       "q1 = (b_x + i1, b_y + j1)" "q2 = (b_x + i2, b_y + j2)"
    using to_xy_two by blast
  from a have w: "0 \<le> b_w" and h: "0 \<le> b_h" by simp_all
  {
    assume "float_le (fst p1) (fst p2)"
    with w have "i1 \<le> i2" using m(1) m(3) by (rule int_of_product_mono)
    then show "fst q1 \<le> fst q2" by (simp add: m(5) m(6))
  }
  {
    assume "float_le (snd p1) (snd p2)"
    with h have "j1 \<le> j2" using m(2) m(4) by (rule int_of_product_mono)
    then show "snd q1 \<le> snd q2" by (simp add: m(5) m(6))
  }
qed

lemma to_xy_sample:
  "to_xy 92 560 1360 300 [(float_lit 0.05, float_lit 0.40), (float_lit 0.93, float_lit 0.78)] =
     Inr [(160, 680), (1356, 794)]"
  by (simp add: float_eval)

lemma float_le_sample:
  "float_le (float_lit 0.05) (float_lit 0.93) \<and> float_le (float_lit 0.40) (float_lit 0.78)"
  by (simp add: float_eval)

theorem to_xy_corners_and_order_witness:
  "to_xy 92 560 1360 300 [(float_lit 0, float_lit 0), (float_lit 1, float_lit 1)] =
     Inr [(92, 560), (1452, 860)]
   \<and> to_xy 92 560 1360 300
        [(float_lit 0.05, float_lit 0.40), (float_lit 0.93, float_lit 0.78)] =
      Inr [(160, 680), (1356, 794)]
   \<and> float_le (float_lit 0.05) (float_lit 0.93) \<and> float_le (float_lit 0.40) (float_lit 0.78)
   \<and> fst (160 :: int, 680 :: int) \<le> fst (1356 :: int, 794 :: int)
   \<and> snd (160 :: int, 680 :: int) \<le> snd (1356 :: int, 794 :: int)"
  using to_xy_corners_and_order [of 1360 300 92 560
          "(float_lit 0.05, float_lit 0.40)" "(float_lit 0.93, float_lit 0.78)"
          "(160, 680)" "(1356, 794)"]
        to_xy_sample float_le_sample
  by simp

text \<open>
  The claim C6 as stated, for every positive width, fails at the width \<open>2\<^sup>5\<^sup>3 + 1\<close>:
  the width is rounded when it is converted to a float, and \<open>(1, 1)\<close> maps to
  \<open>b_x + 2\<^sup>5\<^sup>3\<close>.
\<close>

theorem to_xy_huge_width_counterexample:
  "to_xy 0 0 9007199254740993 1 [(float_lit 0, float_lit 0), (float_lit 1, float_lit 1)] =
     Inr [(0, 0), (9007199254740992, 1)]
   \<and> to_xy 0 0 9007199254740993 1 [(float_lit 0, float_lit 0), (float_lit 1, float_lit 1)] \<noteq>
     Inr [(0, 0), (0 + 9007199254740993, 0 + 1)]"
  by (simp add: float_eval)

section \<open>Properties of the diagrams\<close>

lemma to_xy_points_remote:
  "to_xy 92 560 1360 300 points_remote =
     Inr [(160, 794), (364, 770), (567, 734), (772, 713), (976, 680), (1180, 650), (1356, 614)]"
  by (simp add: points_remote_def float_eval)

lemma to_xy_points_local:
  "to_xy 92 560 1360 300 points_local =
     Inr [(160, 794), (364, 770), (567, 734), (772, 722), (976, 704), (1180, 692), (1356, 680)]"
  by (simp add: points_local_def float_eval)

lemma callout_anchor:
  "int_of_product (float_lit (41 / 50)) 1360 = Inr 1115"
  "int_of_product (float_lit (3 / 10)) 300 = Inr 90"
  by (simp_all add: float_eval)

lemmas draw_eval =
  and_then_def save_def Image_new_def panel_def bullet_def arrow_def truthy_def arg_or_def
  rounded_rectangle_def ellipse_def text_at_def line_def polygon_def perform_def emit_def
  Let_def

lemma render_leak_detection_polyline:
  assumes "render_leak_detection env g = Inr (name, img)"
  shows "name = ''infographic_leak_detection.png'' \<and> length (ops img) = 36
       \<and> ops img ! 13 =
           Line [(160, 794), (364, 770), (567, 734), (772, 722), (976, 704), (1180, 692),
                 (1356, 680)] GREEN 5"
  using assms
  by (auto simp add: render_leak_detection_def to_xy_points_local to_xy_points_remote
      callout_anchor draw_eval split: if_splits)

text \<open>
  On a host whose library accepts the calls and whose output directory can be written,
  every diagram function runs to completion, whatever the fonts; where the file cannot be
  written, the exception of \<^verbatim>\<open>img.save\<close> leaves the function.
\<close>

lemma render_leak_detection_runs:
  "\<exists>img. render_leak_detection no_fonts_host g = Inr (''infographic_leak_detection.png'', img)"
  by (simp add: render_leak_detection_def to_xy_points_local to_xy_points_remote
      callout_anchor draw_eval host_eval)

lemma renders_complete:
  "(\<exists>img. render_architecture no_fonts_host g = Inr (''infographic_architecture.png'', img)
          \<and> length (ops img) = 64)
   \<and> (\<exists>img. render_security_model no_fonts_host g =
               Inr (''infographic_security_model.png'', img)
          \<and> length (ops img) = 49)
   \<and> (\<exists>img. render_control_plane no_fonts_host g =
               Inr (''infographic_control_plane.png'', img)
          \<and> length (ops img) = 38)"
  by (simp add: render_architecture_def render_security_model_def render_control_plane_def
      segments_def actions_def state_lines_def draw_eval host_eval)

lemma render_needs_output_directory:
  "render_architecture no_output_host g = Inl OSError"
  by (simp add: render_architecture_def draw_eval host_eval no_output_host_def)

text \<open>
  C1, as the code has it. The chart's \<open>points_local\<close>, whose first and last normalized
  points are \<open>(0.05, 0.78)\<close> and \<open>(0.93, 0.40)\<close>, mapped into the chart bounds
  \<open>(92, 560, 1360, 300)\<close> by \<open>pixel = origin + int(normalized * size)\<close> on each axis,
  gives a polyline whose endpoints are the pixels \<open>(160, 794)\<close> and \<open>(1356, 680)\<close>;
  so does the list of these two points alone. This polyline is the green line of the
  diagram: on every host and for every resolution of the fonts, a run of
  \<open>render_leak_detection\<close> that completes has drawn it, as its fourteenth drawing call,
  and on the host \<open>no_fonts_host\<close> the run completes for every resolution of the fonts.
\<close>

theorem chart_endpoints:
  "to_xy 92 560 1360 300 points_local =
     Inr [(160, 794), (364, 770), (567, 734), (772, 722), (976, 704), (1180, 692), (1356, 680)]
   \<and> to_xy 92 560 1360 300 [(float_lit 0.05, float_lit 0.78), (float_lit 0.93, float_lit 0.40)] =
     Inr [(160, 794), (1356, 680)]
   \<and> (render_leak_detection env g = Inr (name, img) \<longrightarrow>
        name = ''infographic_leak_detection.png''
        \<and> ops img ! 13 =
            Line [(160, 794), (364, 770), (567, 734), (772, 722), (976, 704), (1180, 692),
                  (1356, 680)] GREEN 5)
   \<and> (\<exists>img. render_leak_detection no_fonts_host g =
               Inr (''infographic_leak_detection.png'', img)
          \<and> ops img ! 13 =
              Line [(160, 794), (364, 770), (567, 734), (772, 722), (976, 704), (1180, 692),
                    (1356, 680)] GREEN 5)"
proof -
  have two: "to_xy 92 560 1360 300
       [(float_lit 0.05, float_lit 0.78), (float_lit 0.93, float_lit 0.40)] =
     Inr [(160, 794), (1356, 680)]"
    by (simp add: float_eval)
  obtain img0 where
    r: "render_leak_detection no_fonts_host g = Inr (''infographic_leak_detection.png'', img0)"
    using render_leak_detection_runs by blast
  from r have "ops img0 ! 13 =
      Line [(160, 794), (364, 770), (567, 734), (772, 722), (976, 704), (1180, 692),
            (1356, 680)] GREEN 5"
    using render_leak_detection_polyline by blast
  with r two to_xy_points_local render_leak_detection_polyline [of env g name img]
  show ?thesis by blast
qed

theorem chart_endpoints_witness:
  "map_sum id (\<lambda>(name, img). (name, ops img ! 13))
     (render_leak_detection no_fonts_host default_fonts) =
   Inr (''infographic_leak_detection.png'',
        Line [(160, 794), (364, 770), (567, 734), (772, 722), (976, 704), (1180, 692),
              (1356, 680)] GREEN 5)"
proof -
  obtain img where
    r: "render_leak_detection no_fonts_host default_fonts =
          Inr (''infographic_leak_detection.png'', img)"
    using render_leak_detection_runs by blast
  from r chart_endpoints [of no_fonts_host default_fonts "''infographic_leak_detection.png''" img]
  show ?thesis by simp
qed

text \<open>
  The claim C1 as stated gives the last endpoint as \<open>(1358, 680)\<close>; the mapping gives
  \<open>92 + int(0.93 * 1360) = 92 + 1264 = 1356\<close>.
\<close>

theorem chart_endpoints_counterexample:
  "to_xy 92 560 1360 300 [(float_lit 0.05, float_lit 0.78), (float_lit 0.93, float_lit 0.40)] \<noteq>
     Inr [(160, 794), (1358, 680)]"
  by (simp add: float_eval)

end
